theory Spec2Isabelle
  imports Main
begin

section \<open>JavaScript values shared by the three source files\<close>

text \<open>
  A thrown value or a rejection reason is an Error object; the sources read its
  \<open>name\<close> and its \<open>message\<close> and nothing else.
\<close>

datatype js_error = JsError (error_name: string) (error_message: string)

text \<open>
  A settled promise. \<open>await\<close> of a value that is no promise is the value itself;
  \<open>await\<close> of a rejected promise throws the reason.
\<close>

datatype 'a js_promise = Resolved 'a | Rejected js_error

datatype 'a maybe_promise = Plain 'a | Promise "'a js_promise"

fun await :: "'a maybe_promise \<Rightarrow> js_error + 'a" where
  "await (Plain v) = Inr v"
| "await (Promise (Resolved v)) = Inr v"
| "await (Promise (Rejected error)) = Inl error"

section \<open>The pre-routing interceptor adapter (on\_pre\_routing)\<close>

subsection \<open>Interceptor results and the toolkit\<close>

datatype ResultType = ResultType_next | ResultType_rewriteUrl

text \<open>\<open>type OnPreRoutingResult = Next | RewriteUrl\<close>: the tag is the constructor.\<close>

datatype OnPreRoutingResult = Next | RewriteUrl string

fun result_type :: "OnPreRoutingResult \<Rightarrow> ResultType" where
  "result_type Next = ResultType_next"
| "result_type (RewriteUrl u) = ResultType_rewriteUrl"

text \<open>
  Modelled from the spec: the explicit response object of the router (class
  KibanaResponse, not among the sources), "a fully-formed response object" with its
  status and body.
\<close>

record 'b KibanaResponse =
  status :: int
  payload :: 'b

text \<open>
  What a handler's awaited result can be at run time: an instance of KibanaResponse, an
  object of type OnPreRoutingResult, or any other value (a handler written in JavaScript
  is not held to the declared type). The other value carries the outcome of its string
  conversion, which the adapter's error message performs: the text, or the error that
  the conversion throws.
\<close>

datatype 'b handler_value =
    Response "'b KibanaResponse"
  | Result OnPreRoutingResult
  | Unexpected "js_error + string"

definition preRoutingResult_next :: "unit \<Rightarrow> OnPreRoutingResult" where
  "preRoutingResult_next _ = Next"

definition preRoutingResult_rewriteUrl :: "string \<Rightarrow> OnPreRoutingResult" where
  "preRoutingResult_rewriteUrl u = RewriteUrl u"

text \<open>
  \<open>result && result.type === ResultType.next\<close>: a falsy value stops at \<open>&&\<close>, a
  value without that tag fails the comparison.
\<close>

fun isNext :: "'b handler_value \<Rightarrow> bool" where
  "isNext (Result result) = (result_type result = ResultType_next)"
| "isNext _ = False"

fun isRewriteUrl :: "'b handler_value \<Rightarrow> bool" where
  "isRewriteUrl (Result result) = (result_type result = ResultType_rewriteUrl)"
| "isRewriteUrl _ = False"

text \<open>\<open>const { url } = result\<close>: the property, absent on a value that has none.\<close>

fun result_url :: "'b handler_value \<Rightarrow> string option" where
  "result_url (Result (RewriteUrl u)) = Some u"
| "result_url _ = None"

record OnPreRoutingToolkit =
  toolkit_next :: "unit \<Rightarrow> OnPreRoutingResult"
  toolkit_rewriteUrl :: "string \<Rightarrow> OnPreRoutingResult"

definition toolkit :: OnPreRoutingToolkit where
  "toolkit = \<lparr>toolkit_next = preRoutingResult_next,
              toolkit_rewriteUrl = preRoutingResult_rewriteUrl\<rparr>"

subsection \<open>The host server's request and response\<close>

text \<open>
  \<open>request.app\<close> as KibanaRequestState: the one field the adapter touches.
\<close>

record 'u KibanaRequestState =
  rewrittenUrl :: "'u option"

text \<open>
  The Hapi request: \<open>request.url\<close> is the parsed URL the server routes on (of a type
  \<open>'u\<close> of the host), \<open>request.raw.req.url\<close> the raw string, \<open>request.app\<close> the
  per-request state.
\<close>

record 'u Request =
  url :: 'u
  raw_req_url :: string
  app :: "'u KibanaRequestState"

text \<open>
  \<open>request.setUrl\<close> belongs to the host server, not to this repository. It parses the
  string and stores the result as a new parsed URL, so a URL recorded earlier is not
  changed by it; on a string its parser rejects it throws and stores no URL. The parser
  is a parameter of the model.
\<close>

definition setUrl :: "(string \<Rightarrow> js_error + 'u) \<Rightarrow> string \<Rightarrow> 'u Request \<Rightarrow> js_error + 'u Request" where
  "setUrl parseUrl s request =
     (case parseUrl s of
        Inl error \<Rightarrow> Inl error
      | Inr parsed \<Rightarrow> Inr (request\<lparr>url := parsed\<rparr>))"

text \<open>
  \<open>Lifecycle.ReturnValue\<close>: the toolkit's \<open>continue\<close> signal or a native response.
\<close>

datatype 'b ReturnValue =
    Continue
  | NativeResponse int 'b
  | NativeInternalError

text \<open>
  Modelled from the spec: HapiResponseAdapter (in the router, not among the sources),
  the "capability to (a) convert an internal explicit-response value into the native
  response type, and (b) produce a generic internal-error native response".
\<close>

definition handle :: "'b KibanaResponse \<Rightarrow> 'b ReturnValue" where
  "handle kibanaResponse = NativeResponse (status kibanaResponse) (payload kibanaResponse)"

definition toInternalError :: "'b ReturnValue" where
  "toInternalError = NativeInternalError"

text \<open>
  Modelled from the spec: \<open>KibanaRequest.from\<close> and \<open>lifecycleResponseFactory\<close> (in the
  router, not among the sources). The request view is a "read-only view over the
  underlying server's native request"; the factory is an opaque value handed to the
  handler.
\<close>

type_synonym 'u KibanaRequest = "'u Request"

definition KibanaRequest_from :: "'u Request \<Rightarrow> 'u KibanaRequest" where
  "KibanaRequest_from request = request"

datatype LifecycleResponseFactory = lifecycleResponseFactory

text \<open>
  \<open>OnPreRoutingHandler\<close>: it throws (\<open>Inl\<close>), or returns a value or a promise.
\<close>

type_synonym ('u, 'b) OnPreRoutingHandler =
  "'u KibanaRequest \<Rightarrow> LifecycleResponseFactory \<Rightarrow> OnPreRoutingToolkit
     \<Rightarrow> js_error + 'b handler_value maybe_promise"

subsection \<open>adoptToHapiOnRequest\<close>

text \<open>
  The loop that rebuilds the URL string \<open>u\<close> (the source's \<open>url\<close>), a string
  being the list of its code units:
  \<open>for (let i = 0; i < url.length; i++) { urlCopy += url[i]; }\<close>
\<close>

function copy_loop :: "string \<Rightarrow> nat \<Rightarrow> string \<Rightarrow> string" where
  "copy_loop u i urlCopy =
     (if i < length u then copy_loop u (i + 1) (urlCopy @ [u ! i]) else urlCopy)"
  by pat_completeness auto
termination
  by (relation "measure (\<lambda>(u, i, urlCopy). length u - i)") auto

declare copy_loop.simps [simp del]

text \<open>
  The error of the final \<open>throw\<close>. Building its message converts the result to a
  string, which can throw in its turn; a plain object converts to \<open>[object Object]\<close>.
\<close>

definition unexpected_result_error :: "'b handler_value \<Rightarrow> js_error" where
  "unexpected_result_error result =
     (case result of
        Unexpected (Inl error) \<Rightarrow> error
      | Unexpected (Inr shown) \<Rightarrow>
          JsError ''Error''
            (''Unexpected result from OnPreRouting. Expected OnPreRoutingResult or KibanaResponse, but given: ''
               @ shown @ ''.'')
      | _ \<Rightarrow>
          JsError ''Error''
            ''Unexpected result from OnPreRouting. Expected OnPreRoutingResult or KibanaResponse, but given: [object Object].'')"

text \<open>
  \<open>await fn(KibanaRequest.from(request), lifecycleResponseFactory, toolkit)\<close>: the
  handler's awaited result, or the error it threw or rejected with.
\<close>

definition awaited_result :: "('u, 'b) OnPreRoutingHandler \<Rightarrow> 'u Request \<Rightarrow> js_error + 'b handler_value" where
  "awaited_result fn request =
     (case fn (KibanaRequest_from request) lifecycleResponseFactory toolkit of
        Inl error \<Rightarrow> Inl error
      | Inr returned \<Rightarrow> await returned)"

text \<open>
  \<open>appState.rewrittenUrl = appState.rewrittenUrl ?? request.url\<close>
\<close>

definition record_rewrittenUrl :: "'u Request \<Rightarrow> 'u Request" where
  "record_rewrittenUrl request =
     (let appState = app request
      in request\<lparr>app := appState\<lparr>rewrittenUrl :=
           (case rewrittenUrl appState of
              Some original \<Rightarrow> Some original
            | None \<Rightarrow> Some (url request))\<rparr>\<rparr>)"

text \<open>
  The body of the \<open>try\<close> block: the value it returns or the error it throws, with the
  request as the block leaves it. Reading \<open>url.length\<close> of a result without a
  \<open>url\<close> throws a TypeError.
\<close>

definition try_block ::
  "(string \<Rightarrow> js_error + 'u) \<Rightarrow> ('u, 'b) OnPreRoutingHandler \<Rightarrow> 'u Request
     \<Rightarrow> (js_error + 'b ReturnValue) \<times> 'u Request" where
  "try_block parseUrl fn request =
     (case awaited_result fn request of
        Inl error \<Rightarrow> (Inl error, request)
      | Inr result \<Rightarrow>
          (case result of
             Response kibanaResponse \<Rightarrow> (Inr (handle kibanaResponse), request)
           | _ \<Rightarrow>
               if isNext result then (Inr Continue, request)
               else if isRewriteUrl result then
                 (let request1 = record_rewrittenUrl request
                  in case result_url result of
                       None \<Rightarrow>
                         (Inl (JsError ''TypeError'' ''Cannot read properties of undefined (reading length)''),
                          request1)
                     | Some u \<Rightarrow>
                         (let urlCopy = copy_loop u 0 []
                          in case setUrl parseUrl urlCopy request1 of
                               Inl error \<Rightarrow> (Inl error, request1)
                             | Inr request2 \<Rightarrow> (Inr Continue, request2\<lparr>raw_req_url := u\<rparr>)))
               else (Inl (unexpected_result_error result), request)))"

text \<open>
  \<open>interceptPreRoutingRequest\<close>, the function that \<open>adoptToHapiOnRequest fn log\<close>
  returns. The logger is the list of the errors it was given. The result is the
  promise of the async function, the request and the log afterwards.
\<close>

definition interceptPreRoutingRequest ::
  "(string \<Rightarrow> js_error + 'u) \<Rightarrow> ('u, 'b) OnPreRoutingHandler \<Rightarrow> js_error list \<Rightarrow> 'u Request
     \<Rightarrow> 'b ReturnValue js_promise \<times> 'u Request \<times> js_error list" where
  "interceptPreRoutingRequest parseUrl fn log request =
     (case try_block parseUrl fn request of
        (Inr returned, request') \<Rightarrow> (Resolved returned, request', log)
      | (Inl error, request') \<Rightarrow> (Resolved toInternalError, request', log @ [error]))"

definition adoptToHapiOnRequest ::
  "(string \<Rightarrow> js_error + 'u) \<Rightarrow> ('u, 'b) OnPreRoutingHandler \<Rightarrow> js_error list \<Rightarrow> 'u Request
     \<Rightarrow> 'b ReturnValue js_promise \<times> 'u Request \<times> js_error list" where
  "adoptToHapiOnRequest parseUrl fn log = interceptPreRoutingRequest parseUrl fn log"


section \<open>TaskRunnerFactory (task\_runner\_factory)\<close>

text \<open>
  The two private fields of the class; \<open>taskRunnerContext\<close> is optional. The context
  type \<open>'c\<close> stands for TaskRunnerContext.
\<close>

record 'c TaskRunnerFactory =
  isInitialized :: bool
  taskRunnerContext :: "'c option"

text \<open>The field initialisers: \<open>new TaskRunnerFactory()\<close>.\<close>

definition new_TaskRunnerFactory :: "'c TaskRunnerFactory" where
  "new_TaskRunnerFactory = \<lparr>isInitialized = False, taskRunnerContext = None\<rparr>"

text \<open>
  A method returns what it returned or threw, and the object afterwards.
\<close>

definition initialize :: "'c \<Rightarrow> 'c TaskRunnerFactory \<Rightarrow> (js_error + unit) \<times> 'c TaskRunnerFactory" where
  "initialize ctx this =
     (if isInitialized this
      then (Inl (JsError ''Error'' ''TaskRunnerFactory already initialized''), this)
      else (Inr (), this\<lparr>isInitialized := True, taskRunnerContext := Some ctx\<rparr>))"

record 't RunContext =
  taskInstance :: 't

text \<open>
  \<open>new TaskRunner(alertType, taskInstance, this.taskRunnerContext!)\<close>: the class
  TaskRunner is not among the sources, so a task runner is the three arguments of its
  constructor. The \<open>!\<close> is a type assertion only: the field is passed as it is.
\<close>

datatype ('a, 't, 'c) TaskRunner = TaskRunner 'a 't "'c option"

definition create ::
  "'a \<Rightarrow> 't RunContext \<Rightarrow> 'c TaskRunnerFactory
     \<Rightarrow> (js_error + ('a, 't, 'c) TaskRunner) \<times> 'c TaskRunnerFactory" where
  "create alertType runContext this =
     (if \<not> isInitialized this
      then (Inl (JsError ''Error'' ''TaskRunnerFactory not initialized''), this)
      else (Inr (TaskRunner alertType (taskInstance runContext) (taskRunnerContext this)), this))"

text \<open>
  A caller's sequence of method calls on one factory; a call that throws leaves the
  object as the method left it, and the caller goes on.
\<close>

datatype ('a, 't, 'c) factory_call = Initialize 'c | Create 'a "'t RunContext"

fun call :: "('a, 't, 'c) factory_call \<Rightarrow> 'c TaskRunnerFactory \<Rightarrow> 'c TaskRunnerFactory" where
  "call (Initialize ctx) this = snd (initialize ctx this)"
| "call (Create alertType runContext) this = snd (create alertType runContext this)"

fun calls :: "('a, 't, 'c) factory_call list \<Rightarrow> 'c TaskRunnerFactory \<Rightarrow> 'c TaskRunnerFactory" where
  "calls [] this = this"
| "calls (c # cs) this = calls cs (call c this)"

section \<open>fetchFields (fetch\_fields.js)\<close>













section \<open>Inputs for the worked examples\<close>

text \<open>
  A host URL parser for the examples: it accepts the strings that begin with a slash
  and rejects every other string, as the host does a string that is no URL.
\<close>

fun slash_parseUrl :: "string \<Rightarrow> js_error + string" where
  "slash_parseUrl (c # cs) =
     (if c = CHR ''/'' then Inr (c # cs) else Inl (JsError ''TypeError'' ''Invalid URL''))"
| "slash_parseUrl [] = Inl (JsError ''TypeError'' ''Invalid URL'')"

definition old_path_request :: "string Request" where
  "old_path_request =
     \<lparr>url = ''/old-path'', raw_req_url = ''/old-path'', app = \<lparr>rewrittenUrl = None\<rparr>\<rparr>"

text \<open>Handlers that return \<open>toolkit.rewriteUrl(u)\<close> and \<open>toolkit.next()\<close>.\<close>

definition rewriteUrl_handler :: "string \<Rightarrow> (string, string) OnPreRoutingHandler" where
  "rewriteUrl_handler u request response t = Inr (Plain (Result (toolkit_rewriteUrl t u)))"

definition next_handler :: "(string, string) OnPreRoutingHandler" where
  "next_handler request response t = Inr (Promise (Resolved (Result (toolkit_next t ()))))"

text \<open>
  Handlers that throw, return a rejected promise, return an explicit response, and
  return a value that is none of the expected ones.
\<close>

definition throwing_handler :: "js_error \<Rightarrow> (string, string) OnPreRoutingHandler" where
  "throwing_handler error request response t = Inl error"

definition rejecting_handler :: "js_error \<Rightarrow> (string, string) OnPreRoutingHandler" where
  "rejecting_handler error request response t = Inr (Promise (Rejected error))"

definition response_handler :: "string KibanaResponse \<Rightarrow> (string, string) OnPreRoutingHandler" where
  "response_handler kibanaResponse request response t = Inr (Plain (Response kibanaResponse))"

definition unexpected_handler :: "js_error + string \<Rightarrow> (string, string) OnPreRoutingHandler" where
  "unexpected_handler shown request response t = Inr (Promise (Resolved (Unexpected shown)))"



section \<open>Properties of the pre-routing interceptor adapter\<close>

lemma copy_loop_drop: "copy_loop u i urlCopy = urlCopy @ drop i u"
proof (induction u i urlCopy rule: copy_loop.induct)
  case (1 u i urlCopy)
  show ?case
  proof (cases "i < length u")
    case True
    then have "copy_loop u i urlCopy = (urlCopy @ [u ! i]) @ drop (i + 1) u"
      using "1" by (simp add: copy_loop.simps [of u i urlCopy])
    with True show ?thesis by (simp add: Cons_nth_drop_Suc)
  next
    case False
    then show ?thesis by (simp add: copy_loop.simps [of u i urlCopy])
  qed
qed


lemma try_block_error:
  "awaited_result fn request = Inl error \<Longrightarrow> try_block parseUrl fn request = (Inl error, request)"
  by (simp add: try_block_def)

lemma try_block_response:
  "awaited_result fn request = Inr (Response kibanaResponse) \<Longrightarrow>
   try_block parseUrl fn request = (Inr (handle kibanaResponse), request)"
  by (simp add: try_block_def)

lemma try_block_next:
  "awaited_result fn request = Inr (Result Next) \<Longrightarrow>
   try_block parseUrl fn request = (Inr Continue, request)"
  by (simp add: try_block_def)


lemma try_block_unexpected:
  "awaited_result fn request = Inr result \<Longrightarrow> \<forall>kibanaResponse. result \<noteq> Response kibanaResponse \<Longrightarrow>
   \<not> isNext result \<Longrightarrow> \<not> isRewriteUrl result \<Longrightarrow>
   try_block parseUrl fn request = (Inl (unexpected_result_error result), request)"
  by (cases result) (simp_all add: try_block_def)

lemma awaited_rewriteUrl_handler:
  "awaited_result (rewriteUrl_handler u) request = Inr (Result (RewriteUrl u))"
  by (simp add: awaited_result_def rewriteUrl_handler_def toolkit_def preRoutingResult_rewriteUrl_def)

lemma awaited_next_handler:
  "awaited_result next_handler request = Inr (Result Next)"
  by (simp add: awaited_result_def next_handler_def toolkit_def preRoutingResult_next_def)






text \<open>
  C2. When the handler throws, or returns a promise that rejects, with \<open>error\<close>, the
  lifecycle function does not reject: it resolves with the generic internal-error
  response, the logger has received exactly that one error, and the request is as it
  was.
\<close>

theorem handler_failure_is_logged_once_and_answered:
  assumes "fn (KibanaRequest_from request) lifecycleResponseFactory toolkit = Inl error
           \<or> fn (KibanaRequest_from request) lifecycleResponseFactory toolkit
               = Inr (Promise (Rejected error))"
  shows "interceptPreRoutingRequest parseUrl fn log request
           = (Resolved toInternalError, request, log @ [error])"
proof -
  from assms have "awaited_result fn request = Inl error"
    by (auto simp add: awaited_result_def)
  then show ?thesis
    by (simp add: interceptPreRoutingRequest_def try_block_error)
qed

theorem handler_failure_is_logged_once_and_answered_witness:
  "(throwing_handler (JsError ''Error'' ''boom'') (KibanaRequest_from old_path_request)
        lifecycleResponseFactory toolkit = Inl (JsError ''Error'' ''boom'')
      \<or> throwing_handler (JsError ''Error'' ''boom'') (KibanaRequest_from old_path_request)
        lifecycleResponseFactory toolkit = Inr (Promise (Rejected (JsError ''Error'' ''boom''))))
   \<and> interceptPreRoutingRequest slash_parseUrl (throwing_handler (JsError ''Error'' ''boom'')) []
         old_path_request
       = (Resolved toInternalError, old_path_request, [JsError ''Error'' ''boom''])
   \<and> interceptPreRoutingRequest slash_parseUrl (rejecting_handler (JsError ''Error'' ''boom'')) []
         old_path_request
       = (Resolved toInternalError, old_path_request, [JsError ''Error'' ''boom''])"
proof -
  have h1: "throwing_handler (JsError ''Error'' ''boom'') (KibanaRequest_from old_path_request)
              lifecycleResponseFactory toolkit = Inl (JsError ''Error'' ''boom'')"
    by (simp add: throwing_handler_def)
  have h2: "rejecting_handler (JsError ''Error'' ''boom'') (KibanaRequest_from old_path_request)
              lifecycleResponseFactory toolkit = Inr (Promise (Rejected (JsError ''Error'' ''boom'')))"
    by (simp add: rejecting_handler_def)
  have a: "interceptPreRoutingRequest slash_parseUrl (throwing_handler (JsError ''Error'' ''boom'')) []
         old_path_request
       = (Resolved toInternalError, old_path_request, [] @ [JsError ''Error'' ''boom''])"
    using handler_failure_is_logged_once_and_answered
        [where fn = "throwing_handler (JsError ''Error'' ''boom'')" and request = old_path_request
          and error = "JsError ''Error'' ''boom''" and parseUrl = slash_parseUrl and log = "[]"] h1
    by simp
  have b: "interceptPreRoutingRequest slash_parseUrl (rejecting_handler (JsError ''Error'' ''boom'')) []
         old_path_request
       = (Resolved toInternalError, old_path_request, [] @ [JsError ''Error'' ''boom''])"
    using handler_failure_is_logged_once_and_answered
        [where fn = "rejecting_handler (JsError ''Error'' ''boom'')" and request = old_path_request
          and error = "JsError ''Error'' ''boom''" and parseUrl = slash_parseUrl and log = "[]"] h2
    by simp
  from h1 a b show ?thesis by simp
qed

text \<open>
  C3. When the handler's awaited result is no explicit response, no continue-result
  and no rewrite-result, the lifecycle function behaves as it does for a handler that
  throws the error of the final \<open>throw\<close>: it resolves with the generic internal-error
  response, the logger has received exactly that one error, and the request is as it
  was.
\<close>

theorem unrecognized_result_is_treated_as_a_throw:
  assumes "awaited_result fn request = Inr result"
    and "\<forall>kibanaResponse. result \<noteq> Response kibanaResponse"
    and "\<not> isNext result" and "\<not> isRewriteUrl result"
  shows "interceptPreRoutingRequest parseUrl fn log request
           = (Resolved toInternalError, request, log @ [unexpected_result_error result])
         \<and> interceptPreRoutingRequest parseUrl fn log request
           = interceptPreRoutingRequest parseUrl
               (\<lambda>request response t. Inl (unexpected_result_error result)) log request"
    (is "?returned = ?answer \<and> ?returned = interceptPreRoutingRequest parseUrl ?thrower log request")
proof -
  have "awaited_result ?thrower request = Inl (unexpected_result_error result)"
    by (simp add: awaited_result_def)
  then have "interceptPreRoutingRequest parseUrl ?thrower log request = ?answer"
    by (simp add: interceptPreRoutingRequest_def try_block_error)
  moreover have "?returned = ?answer"
    using assms by (simp add: interceptPreRoutingRequest_def try_block_unexpected)
  ultimately show ?thesis by simp
qed

theorem unrecognized_result_is_treated_as_a_throw_witness:
  "awaited_result (unexpected_handler (Inr ''undefined'')) old_path_request
     = Inr (Unexpected (Inr ''undefined''))
   \<and> (\<forall>kibanaResponse. Unexpected (Inr ''undefined'') \<noteq> Response (kibanaResponse :: string KibanaResponse))
   \<and> \<not> isNext (Unexpected (Inr ''undefined'') :: string handler_value)
   \<and> \<not> isRewriteUrl (Unexpected (Inr ''undefined'') :: string handler_value)
   \<and> interceptPreRoutingRequest slash_parseUrl (unexpected_handler (Inr ''undefined'')) []
         old_path_request
       = (Resolved toInternalError, old_path_request,
          [JsError ''Error''
             ''Unexpected result from OnPreRouting. Expected OnPreRoutingResult or KibanaResponse, but given: undefined.''])"
proof -
  have h1: "awaited_result (unexpected_handler (Inr ''undefined'')) old_path_request
              = Inr (Unexpected (Inr ''undefined''))"
    by (simp add: awaited_result_def unexpected_handler_def)
  have h2: "\<forall>kibanaResponse. Unexpected (Inr ''undefined'') \<noteq> Response (kibanaResponse :: string KibanaResponse)"
    by simp
  have h3: "\<not> isNext (Unexpected (Inr ''undefined'') :: string handler_value)"
    by simp
  have h4: "\<not> isRewriteUrl (Unexpected (Inr ''undefined'') :: string handler_value)"
    by simp
  have "interceptPreRoutingRequest slash_parseUrl (unexpected_handler (Inr ''undefined'')) []
          old_path_request
        = (Resolved toInternalError, old_path_request,
           [] @ [unexpected_result_error (Unexpected (Inr ''undefined'') :: string handler_value)])"
    using unrecognized_result_is_treated_as_a_throw
        [where fn = "unexpected_handler (Inr ''undefined'')" and request = old_path_request
          and result = "Unexpected (Inr ''undefined'')" and parseUrl = slash_parseUrl
          and log = "[]", OF h1 h2 h3 h4]
    by (rule conjunct1)
  with h1 show ?thesis
    by (simp add: unexpected_result_error_def)
qed

text \<open>
  C4. When the handler's awaited result is the continue-result, the lifecycle function
  resolves with the proceed signal and leaves the request (parsed URL, raw URL and the
  recorded original URL) and the log as they were.
\<close>

theorem next_proceeds_and_changes_nothing:
  assumes "awaited_result fn request = Inr result" and "isNext result"
  shows "interceptPreRoutingRequest parseUrl fn log request = (Resolved Continue, request, log)"
proof -
  from assms(2) have "result = Result Next"
    by (cases result; simp) (metis result_type.elims ResultType.distinct(1))
  with assms(1) show ?thesis
    by (simp add: interceptPreRoutingRequest_def try_block_next)
qed

theorem next_proceeds_and_changes_nothing_witness:
  "awaited_result next_handler old_path_request = Inr (Result Next)
   \<and> isNext (Result Next :: string handler_value)
   \<and> interceptPreRoutingRequest slash_parseUrl next_handler [] old_path_request
       = (Resolved Continue, old_path_request, [])"
proof -
  have h1: "awaited_result next_handler old_path_request = Inr (Result Next)"
    by (rule awaited_next_handler)
  have h2: "isNext (Result Next :: string handler_value)"
    by simp
  from h1 h2 next_proceeds_and_changes_nothing
      [where fn = next_handler and request = old_path_request and result = "Result Next"
        and parseUrl = slash_parseUrl and log = "[]", OF h1 h2]
  show ?thesis by simp
qed

text \<open>
  C5. When the handler's awaited result is an explicit response, the lifecycle function
  resolves with the response adapter's conversion of that response, which has its
  status and its body; the request and the log are as they were.
\<close>

theorem response_is_converted_by_the_adapter:
  assumes "awaited_result fn request = Inr (Response kibanaResponse)"
  shows "interceptPreRoutingRequest parseUrl fn log request
           = (Resolved (handle kibanaResponse), request, log)
         \<and> handle kibanaResponse = NativeResponse (status kibanaResponse) (payload kibanaResponse)"
  using assms
  by (simp add: interceptPreRoutingRequest_def try_block_response handle_def)

theorem response_is_converted_by_the_adapter_witness:
  "awaited_result (response_handler \<lparr>status = 404, payload = ''not found''\<rparr>) old_path_request
     = Inr (Response \<lparr>status = 404, payload = ''not found''\<rparr>)
   \<and> interceptPreRoutingRequest slash_parseUrl
         (response_handler \<lparr>status = 404, payload = ''not found''\<rparr>) [] old_path_request
       = (Resolved (NativeResponse 404 ''not found''), old_path_request, [])"
proof -
  have h1: "awaited_result (response_handler \<lparr>status = 404, payload = ''not found''\<rparr>) old_path_request
              = Inr (Response \<lparr>status = 404, payload = ''not found''\<rparr>)"
    by (simp add: awaited_result_def response_handler_def)
  from h1 response_is_converted_by_the_adapter
      [where fn = "response_handler \<lparr>status = 404, payload = ''not found''\<rparr>"
        and request = old_path_request and kibanaResponse = "\<lparr>status = 404, payload = ''not found''\<rparr>"
        and parseUrl = slash_parseUrl and log = "[]", OF h1]
  show ?thesis by simp
qed




text \<open>
  C7. The loop rebuilds the URL string unchanged: started at index 0 with the empty
  string it returns \<open>u\<close>. So for a rewrite-result carrying \<open>u\<close> the \<open>try\<close> block is
  the call of the URL setter with \<open>u\<close> itself, followed by the assignment of \<open>u\<close> to
  the raw URL.
\<close>

theorem url_copy_is_the_url:
  "copy_loop u 0 [] = u
   \<and> (awaited_result fn request = Inr (Result (RewriteUrl u)) \<longrightarrow>
        try_block parseUrl fn request =
          (case setUrl parseUrl u (record_rewrittenUrl request) of
             Inl error \<Rightarrow> (Inl error, record_rewrittenUrl request)
           | Inr request2 \<Rightarrow> (Inr Continue, request2\<lparr>raw_req_url := u\<rparr>)))"
proof
  show copy: "copy_loop u 0 [] = u"
    by (simp add: copy_loop_drop)
  show "awaited_result fn request = Inr (Result (RewriteUrl u)) \<longrightarrow>
        try_block parseUrl fn request =
          (case setUrl parseUrl u (record_rewrittenUrl request) of
             Inl error \<Rightarrow> (Inl error, record_rewrittenUrl request)
           | Inr request2 \<Rightarrow> (Inr Continue, request2\<lparr>raw_req_url := u\<rparr>))"
  proof
    assume "awaited_result fn request = Inr (Result (RewriteUrl u))"
    then show "try_block parseUrl fn request =
          (case setUrl parseUrl u (record_rewrittenUrl request) of
             Inl error \<Rightarrow> (Inl error, record_rewrittenUrl request)
           | Inr request2 \<Rightarrow> (Inr Continue, request2\<lparr>raw_req_url := u\<rparr>))"
      by (simp add: try_block_def copy Let_def)
  qed
qed

theorem url_copy_is_the_url_witness:
  "copy_loop ''/new-path'' 0 [] = ''/new-path''
   \<and> awaited_result (rewriteUrl_handler ''/new-path'') old_path_request
       = Inr (Result (RewriteUrl ''/new-path''))
   \<and> try_block slash_parseUrl (rewriteUrl_handler ''/new-path'') old_path_request
       = (Inr Continue,
          \<lparr>url = ''/new-path'', raw_req_url = ''/new-path'', app = \<lparr>rewrittenUrl = Some ''/old-path''\<rparr>\<rparr>)"
proof -
  have h: "awaited_result (rewriteUrl_handler ''/new-path'') old_path_request
             = Inr (Result (RewriteUrl ''/new-path''))"
    by (rule awaited_rewriteUrl_handler)
  from h url_copy_is_the_url
      [where u = "''/new-path''" and fn = "rewriteUrl_handler ''/new-path''"
        and request = old_path_request and parseUrl = slash_parseUrl]
  show ?thesis
    by (simp add: setUrl_def record_rewrittenUrl_def old_path_request_def)
qed

text \<open>
  C8. The toolkit's \<open>next\<close> produces the continue variant and \<open>rewriteUrl\<close> the
  rewrite variant carrying its argument; \<open>isNext\<close> holds of the first and not of the
  second, \<open>isRewriteUrl\<close> of the second (whose URL is the argument) and not of the
  first, and no value satisfies both predicates.
\<close>

theorem factories_and_guards_discriminate:
  "isNext (Result (toolkit_next toolkit ()))
   \<and> \<not> isRewriteUrl (Result (toolkit_next toolkit ()))
   \<and> isRewriteUrl (Result (toolkit_rewriteUrl toolkit u))
   \<and> result_url (Result (toolkit_rewriteUrl toolkit u)) = Some u
   \<and> \<not> isNext (Result (toolkit_rewriteUrl toolkit u))
   \<and> toolkit_next toolkit () = Next
   \<and> toolkit_rewriteUrl toolkit u = RewriteUrl u
   \<and> (r = toolkit_next toolkit () \<or> (\<exists>u'. r = toolkit_rewriteUrl toolkit u'))
   \<and> isNext (Result r) \<noteq> isRewriteUrl (Result r)
   \<and> \<not> (isNext result \<and> isRewriteUrl result)"
proof -
  have "\<not> (isNext result \<and> isRewriteUrl result)"
    by (cases result) auto
  moreover have "isNext (Result r) \<noteq> isRewriteUrl (Result r)"
    by (cases r) simp_all
  moreover have "r = Next \<or> (\<exists>u'. r = RewriteUrl u')"
    by (cases r) simp_all
  ultimately show ?thesis
    by (simp add: toolkit_def preRoutingResult_next_def preRoutingResult_rewriteUrl_def)
qed

section \<open>Properties of TaskRunnerFactory\<close>

lemma calls_creates:
  "calls (map (\<lambda>(alertType, runContext). Create alertType runContext) creates) this = this"
  by (induction creates arbitrary: this) (auto simp add: create_def)

lemma call_initialized:
  "isInitialized this \<Longrightarrow> call c this = this"
  by (cases c) (simp_all add: initialize_def create_def)

lemma calls_initialized:
  "isInitialized this \<Longrightarrow> calls cs this = this"
  by (induction cs) (simp_all add: call_initialized)

text \<open>
  C9. On a new factory, after any number of calls of \<open>create\<close>, a call of \<open>create\<close>
  throws the error "TaskRunnerFactory not initialized" and the first call of
  \<open>initialize\<close> succeeds and records its context. After that and any further calls,
  \<open>initialize\<close> throws "TaskRunnerFactory already initialized" and leaves the factory
  as it was, the recorded context is still the first one, and \<open>create\<close> returns a
  task runner built from the alert type, the task instance and the recorded context.
\<close>

theorem initialize_at_most_once:
  fixes ctx ctx' :: 'c
  shows
  "(let before = calls (map (\<lambda>(alertType, runContext). Create alertType runContext) creates)
                   new_TaskRunnerFactory;
        first = initialize ctx before;
        later = calls cs (snd first)
    in fst (create alertType runContext before)
         = Inl (JsError ''Error'' ''TaskRunnerFactory not initialized'')
       \<and> fst first = Inr ()
       \<and> isInitialized (snd first) \<and> taskRunnerContext (snd first) = Some ctx
       \<and> initialize ctx' later
           = (Inl (JsError ''Error'' ''TaskRunnerFactory already initialized''), later)
       \<and> taskRunnerContext later = Some ctx
       \<and> create alertType runContext later
           = (Inr (TaskRunner alertType (taskInstance runContext) (Some ctx)), later))"
proof -
  have before: "calls (map (\<lambda>(alertType, runContext). Create alertType runContext) creates)
                  new_TaskRunnerFactory = (new_TaskRunnerFactory :: 'c TaskRunnerFactory)"
    by (rule calls_creates)
  have first: "initialize ctx (new_TaskRunnerFactory :: 'c TaskRunnerFactory)
                 = (Inr (), \<lparr>isInitialized = True, taskRunnerContext = Some ctx\<rparr>)"
    by (simp add: initialize_def new_TaskRunnerFactory_def)
  have later: "calls cs \<lparr>isInitialized = True, taskRunnerContext = Some ctx\<rparr>
                 = \<lparr>isInitialized = True, taskRunnerContext = Some ctx\<rparr>"
    by (simp add: calls_initialized)
  show ?thesis
    unfolding Let_def before first
    by (simp add: later) (simp add: create_def initialize_def new_TaskRunnerFactory_def)
qed

theorem initialize_at_most_once_witness:
  "create ''alert'' \<lparr>taskInstance = ''task''\<rparr>
     (calls [Create ''alert'' \<lparr>taskInstance = ''task''\<rparr>, Initialize (1 :: nat), Initialize 2]
        new_TaskRunnerFactory)
   = (Inr (TaskRunner ''alert'' ''task'' (Some 1)),
      \<lparr>isInitialized = True, taskRunnerContext = Some 1\<rparr>)"
  using initialize_at_most_once
      [where creates = "[(''alert'', \<lparr>taskInstance = ''task''\<rparr>)]" and ctx = "1 :: nat"
        and cs = "[Initialize 2 :: (string, string, nat) factory_call]" and ctx' = 3
        and alertType = "''alert''" and runContext = "\<lparr>taskInstance = ''task''\<rparr>"]
  by (simp add: Let_def create_def initialize_def new_TaskRunnerFactory_def)

section \<open>Properties of fetchFields\<close>















end
